theory Spec2Isabelle
  imports Complex_Main "HOL-Library.Sublist"
begin

section \<open>JavaScript strings and arrays\<close>

text \<open>
  A JavaScript string is a sequence of UTF-16 code units. The model is Isabelle's
  \<open>string\<close>, whose characters are the code units below 256 (ASCII and the Latin-1
  supplement); every literal of the source is ASCII.

  \<open>String.prototype.toLowerCase\<close> on that range: the letters A to Z, and the Latin-1
  capitals U+00C0 to U+00DE without the multiplication sign U+00D7, move up by 32;
  every other code unit stays.
\<close>

definition toLowerChar :: "char \<Rightarrow> char" where
  "toLowerChar c =
     (let n = (of_char c :: nat)
      in if (65 \<le> n \<and> n \<le> 90) \<or> (192 \<le> n \<and> n \<le> 222 \<and> n \<noteq> 215)
         then char_of (n + 32) else c)"

definition toLowerCase :: "string \<Rightarrow> string" where
  "toLowerCase s = map toLowerChar s"

text \<open>\<open>s.includes(p)\<close>: \<open>p\<close> occurs in \<open>s\<close> as a contiguous substring.\<close>

fun js_includes :: "string \<Rightarrow> string \<Rightarrow> bool" where
  "js_includes [] p = (p = [])"
| "js_includes (c # cs) p = (prefix p (c # cs) \<or> js_includes cs p)"

text \<open>\<open>s.endsWith(p)\<close>.\<close>

definition endsWith :: "string \<Rightarrow> string \<Rightarrow> bool" where
  "endsWith s p = (length p \<le> length s \<and> drop (length s - length p) s = p)"

text \<open>
  \<open>s.slice(start, fin)\<close>: a negative index counts from the end, and both indices are
  clamped to the string.
\<close>

definition slice :: "string \<Rightarrow> int \<Rightarrow> int \<Rightarrow> string" where
  "slice s start fin =
     (let len = int (length s);
          from = (if start < 0 then max (len + start) 0 else min start len);
          to = (if fin < 0 then max (len + fin) 0 else min fin len)
      in take (nat (to - from)) (drop (nat from) s))"

text \<open>\<open>parts.join(sep)\<close> on an array of strings.\<close>

fun join :: "string list \<Rightarrow> string \<Rightarrow> string" where
  "join [] sep = []"
| "join [x] sep = x"
| "join (x # y # ys) sep = x @ sep @ join (y # ys) sep"

section \<open>Messages and the prompt formatters\<close>

text \<open>
  \<open>interface Message { role: 'user' | 'assistant' | 'system'; content: string }\<close>.
  The role is kept as a string: the formatters compare it with \<open>===\<close> and have a
  branch for every other value.
\<close>

record message =
  role :: string
  content :: string

text \<open>
  Every \<open>messages.forEach(msg => { prompt += ... })\<close> of the source is a \<open>fold\<close> over
  the messages whose state is the prompt built so far.
\<close>

definition formatLlama3 :: "message list \<Rightarrow> string" where
  "formatLlama3 messages =
     (let prompt = ''<|begin_of_text|>'';
          prompt = fold (\<lambda>msg prompt.
                     let r = (if role msg = ''assistant'' then ''assistant''
                              else (if role msg = ''system'' then ''system'' else ''user''))
                     in prompt @ ''<|start_header_id|>'' @ r @ ''<|end_header_id|>\<newline>\<newline>''
                          @ content msg @ ''<|eot_id|>'')
                   messages prompt;
          prompt = prompt @ ''<|start_header_id|>assistant<|end_header_id|>\<newline>\<newline>''
      in prompt)"

text \<open>
  \<open>messages[0]?.role === 'system'\<close> is false on the empty array; \<open>messages.slice(n)\<close>
  drops the first \<open>n\<close> messages.
\<close>

definition formatLlama2 :: "message list \<Rightarrow> string" where
  "formatLlama2 messages =
     (let prompt = ''<s>'';
          hasSystemPrompt = False;
          (prompt, hasSystemPrompt) =
             (case messages of
                m # _ \<Rightarrow>
                  if role m = ''system''
                  then (prompt @ ''[INST] <<SYS>>\<newline>'' @ content m @ ''\<newline><</SYS>>\<newline>\<newline>'', True)
                  else (prompt, hasSystemPrompt)
              | [] \<Rightarrow> (prompt, hasSystemPrompt));
          prompt = fold (\<lambda>msg prompt.
                     if role msg = ''user'' then prompt @ ''[INST] '' @ content msg @ '' [/INST]''
                     else if role msg = ''assistant'' then prompt @ '' '' @ content msg @ '' </s><s>''
                     else prompt)
                   (drop (if hasSystemPrompt then 1 else 0) messages) prompt;
          prompt = (if endsWith prompt ''<s>'' then slice prompt 0 (- 3) else prompt)
      in prompt)"

definition formatMistral :: "message list \<Rightarrow> string" where
  "formatMistral messages =
     (let prompt = ''<s>'';
          prompt = fold (\<lambda>msg prompt.
                     if role msg = ''user'' then prompt @ ''[INST] '' @ content msg @ '' [/INST]''
                     else if role msg = ''assistant'' then prompt @ content msg @ ''</s>''
                     else prompt)
                   messages prompt
      in prompt)"

definition formatClaude :: "message list \<Rightarrow> string" where
  "formatClaude messages =
     (let prompt = '''';
          prompt = fold (\<lambda>msg prompt.
                     if role msg = ''system'' then prompt @ content msg @ ''\<newline>\<newline>''
                     else if role msg = ''user'' then prompt @ ''User: '' @ content msg @ ''\<newline>\<newline>''
                     else if role msg = ''assistant''
                       then prompt @ ''Assistant: '' @ content msg @ ''\<newline>\<newline>''
                     else prompt)
                   messages prompt;
          prompt = prompt @ ''Assistant:''
      in prompt)"

definition formatGrok :: "message list \<Rightarrow> string" where
  "formatGrok messages =
     (let prompt = '''';
          prompt = fold (\<lambda>msg prompt.
                     if role msg = ''system''
                       then prompt @ ''System Instruction:\<newline>'' @ content msg @ ''\<newline>\<newline>''
                     else if role msg = ''user''
                       then prompt @ ''User:\<newline>'' @ content msg @ ''\<newline>\<newline>''
                     else if role msg = ''assistant''
                       then prompt @ ''Assistant:\<newline>'' @ content msg @ ''\<newline>\<newline>''
                     else prompt)
                   messages prompt;
          prompt = prompt @ ''Assistant:\<newline>''
      in prompt)"

definition formatSimpleChat :: "message list \<Rightarrow> bool \<Rightarrow> string" where
  "formatSimpleChat messages isSystemSupported =
     join (map (\<lambda>msg.
                  if \<not> isSystemSupported \<and> role msg = ''system''
                  then ''(System Instruction: '' @ content msg @ '')''
                  else role msg @ '': '' @ content msg)
               messages)
          ''\<newline>\<newline>''"

definition formatDefault :: "message list \<Rightarrow> string" where
  "formatDefault messages =
     join (map (\<lambda>msg. ''<'' @ role msg @ ''>: '' @ content msg) messages) ''\<newline>\<newline>''"

definition formatPromptForModel :: "message list \<Rightarrow> string \<Rightarrow> string" where
  "formatPromptForModel messages modelId =
     (let modelIdLower = toLowerCase modelId
      in if js_includes modelIdLower ''llama3.1'' \<or> js_includes modelIdLower ''llama-4''
           then formatLlama3 messages
         else if js_includes modelIdLower ''llama3'' \<or> js_includes modelIdLower ''llama-3.3''
           then formatLlama3 messages
         else if js_includes modelIdLower ''llama2'' \<or> js_includes modelIdLower ''codellama''
           then formatLlama2 messages
         else if js_includes modelIdLower ''mistral'' \<or> js_includes modelIdLower ''nemo''
                 \<or> js_includes modelIdLower ''codestral''
           then formatMistral messages
         else if js_includes modelIdLower ''anthropic'' \<or> js_includes modelIdLower ''claude''
           then formatClaude messages
         else if js_includes modelIdLower ''grok''
           then formatGrok messages
         else if js_includes modelIdLower ''deepseek''
           then formatLlama2 messages
         else if js_includes modelIdLower ''openai'' \<or> js_includes modelIdLower ''google''
                 \<or> js_includes modelIdLower ''gemini''
           then formatSimpleChat messages (js_includes modelIdLower ''openai'')
         else formatDefault messages)"

section \<open>Request data, the inference capability and the response\<close>

text \<open>
  The value \<open>JSON.parse\<close> returns, and the objects the handler passes to
  \<open>JSON.stringify\<close>. An object is the list of its own properties in insertion order,
  each key once. \<open>undefined\<close> is \<open>None\<close> of \<open>json option\<close>.
\<close>

datatype json =
    JNull
  | JBool bool
  | JNum rat
  | JStr string
  | JArr "json list"
  | JObj "(string \<times> json) list"

text \<open>
  \<open>!v\<close> is \<open>\<not> truthy v\<close>: \<open>undefined\<close>, \<open>null\<close>, \<open>false\<close>, zero and the empty string
  are falsy, every array and object is truthy.
\<close>

fun truthy :: "json option \<Rightarrow> bool" where
  "truthy None = False"
| "truthy (Some JNull) = False"
| "truthy (Some (JBool b)) = b"
| "truthy (Some (JNum n)) = (n \<noteq> 0)"
| "truthy (Some (JStr s)) = (s \<noteq> [])"
| "truthy (Some (JArr xs)) = True"
| "truthy (Some (JObj kvs)) = True"

fun isArray :: "json option \<Rightarrow> bool" where
  "isArray (Some (JArr xs)) = True"
| "isArray _ = False"

text \<open>
  \<open>v.k\<close> for \<open>v\<close> other than \<open>null\<close> and \<open>k\<close> one of the keys the handler reads
  (\<open>model\<close>, \<open>messages\<close>, \<open>stream\<close>): an object gives its own property, a string, number,
  boolean or array has no property of these names.
\<close>

fun get :: "json \<Rightarrow> string \<Rightarrow> json option" where
  "get (JObj kvs) k = map_of kvs k"
| "get _ k = None"

text \<open>\<open>Object.keys(v)\<close> of an object.\<close>

fun keys :: "json \<Rightarrow> string list" where
  "keys (JObj kvs) = map fst kvs"
| "keys _ = []"

fun elements :: "json option \<Rightarrow> json list" where
  "elements (Some (JArr xs)) = xs"
| "elements _ = []"

text \<open>
  \<open>formatPromptForModel(requestData.messages, model)\<close> passes the parsed array where
  the signature declares \<open>Message[]\<close>. \<open>as_messages\<close> reads an array whose elements
  are objects with a string \<open>role\<close> and a string \<open>content\<close> as that type; an array
  with any other element is outside the declared type and outside this model
  (\<open>None\<close>).
\<close>

fun as_message :: "json \<Rightarrow> message option" where
  "as_message (JObj kvs) =
     (case map_of kvs ''role'' of
        Some (JStr r) \<Rightarrow>
          (case map_of kvs ''content'' of
             Some (JStr c) \<Rightarrow> Some \<lparr>role = r, content = c\<rparr>
           | _ \<Rightarrow> None)
      | _ \<Rightarrow> None)"
| "as_message _ = None"

definition as_messages :: "json list \<Rightarrow> message list option" where
  "as_messages elems = those (map as_message elems)"

text \<open>
  The TypeErrors the engine raises in the handler; their message text is the
  engine's, a parameter of the model.
\<close>

datatype type_error =
    PropertyOfNull string
  | NotAFunction string

text \<open>
  \<open>AI.ask(prompt, options)\<close> either throws at the call, or returns the answer: the
  \<open>data\<close> events it emits, each with the reading of \<open>Date.now()\<close> in its listener,
  then its settlement (resolved with the full text or rejected with an error) and
  the reading of \<open>Date.now()\<close> then. The events come before the settlement.
\<close>

datatype settlement = Resolved string | Rejected string

datatype ask_result =
    Throws string
  | Answer "(string \<times> int) list" settlement int

text \<open>
  What the handler takes from its platform: \<open>JSON.stringify\<close>, the message of an
  engine TypeError, the enumeration \<open>AI.Model\<close> (\<open>AI.Model[model]\<close> is \<open>undefined\<close> for
  a name it does not have) and \<open>AI.ask\<close>.
\<close>

record env =
  JSON_stringify :: "json \<Rightarrow> string"
  TypeError_message :: "type_error \<Rightarrow> string"
  AI_Model :: "string \<Rightarrow> string option"
  AI_ask :: "string \<Rightarrow> string option \<Rightarrow> ask_result"

text \<open>
  The trace of a request, in the order things happen: \<open>Format\<close> when
  \<open>formatPromptForModel\<close> runs on these messages and this model identifier (a call
  that throws at its first statement, the model not being a string, is not recorded),
  \<open>Ask\<close> when \<open>AI.ask\<close> is called with this prompt and this \<open>options.model\<close>, and
  the operations \<open>res.writeHead\<close>, \<open>res.write\<close> and \<open>res.end\<close> on the response.
  Console logging is left out.
\<close>

datatype effect =
    Format "message list" string
  | Ask string "string option"
  | WriteHead nat "(string \<times> string) list"
  | Write string
  | End "string option"

section \<open>The request handler\<close>

datatype endpoint = Kill | Models | ChatCompletions | NotFound

definition route :: "string \<Rightarrow> string \<Rightarrow> endpoint" where
  "route method url =
     (if method = ''POST'' \<and> url = ''/kill'' then Kill
      else if method = ''GET'' \<and> url = ''/v1/models'' then Models
      else if method \<noteq> ''POST'' \<or> url \<noteq> ''/v1/chat/completions'' then NotFound
      else ChatCompletions)"

definition json_headers :: "(string \<times> string) list" where
  "json_headers = [(''Content-Type'', ''application/json'')]"

definition sse_headers :: "(string \<times> string) list" where
  "sse_headers =
     [(''Content-Type'', ''text/event-stream''), (''Cache-Control'', ''no-cache''),
      (''Connection'', ''keep-alive'')]"

text \<open>\<open>res.writeHead(status, ...); res.end(JSON.stringify({ error: msg }))\<close>.\<close>

definition respond_error :: "env \<Rightarrow> nat \<Rightarrow> string \<Rightarrow> effect list" where
  "respond_error env status msg =
     [WriteHead status json_headers, End (Some (JSON_stringify env (JObj [(''error'', JStr msg)])))]"

text \<open>
  The three envelopes, as the object literals of the source; \<open>now\<close> is the reading
  of \<open>Date.now()\<close> in milliseconds.
\<close>

definition delta_chunk :: "string \<Rightarrow> string \<Rightarrow> int \<Rightarrow> json" where
  "delta_chunk model data now =
     JObj [(''id'', JStr ''chatcmpl-xyz''),
           (''object'', JStr ''chat.completion''),
           (''model'', JStr model),
           (''created'', JNum (of_int (now div 1000))),
           (''choices'', JArr [JObj [(''delta'', JObj [(''content'', JStr data)])]])]"

definition terminal_chunk :: "string \<Rightarrow> int \<Rightarrow> json" where
  "terminal_chunk model now =
     JObj [(''id'', JStr ''chatcmpl-xyz''),
           (''object'', JStr ''chat.completion''),
           (''created'', JNum (of_int (now div 1000))),
           (''model'', JStr model),
           (''choices'', JArr [JObj [(''delta'', JObj [(''content'', JStr [])])]]),
           (''finish_reason'', JStr ''stop'')]"

definition completion_response :: "string \<Rightarrow> string \<Rightarrow> int \<Rightarrow> json" where
  "completion_response model result now =
     JObj [(''id'', JStr ''chatcmpl-xyz''),
           (''object'', JStr ''chat.completion''),
           (''created'', JNum (of_int (now div 1000))),
           (''model'', JStr model),
           (''choices'', JArr [JObj [(''index'', JNum 0),
                                    (''message'', JObj [(''role'', JStr ''assistant''),
                                                        (''content'', JStr result)]),
                                    (''finish_reason'', JStr ''stop'')]]),
           (''usage'', JObj [])]"

definition sse_frame :: "env \<Rightarrow> json \<Rightarrow> string" where
  "sse_frame env obj = ''data: '' @ JSON_stringify env obj @ ''\<newline>\<newline>''"

text \<open>
  The handler from the call of \<open>AI.ask\<close> on. A throw of the call, and in the
  non-streaming branch a rejection of the awaited answer, reach the \<open>catch\<close> of the
  handler (status 500). In the streaming branch each \<open>data\<close> event writes a frame,
  the resolution writes the terminal chunk and the sentinel and ends the response,
  a rejection writes an error frame and ends it.
\<close>

definition respond_answer :: "env \<Rightarrow> string \<Rightarrow> bool \<Rightarrow> ask_result \<Rightarrow> effect list" where
  "respond_answer env model streamMode answer =
     (case answer of
        Throws msg \<Rightarrow> respond_error env 500 msg
      | Answer events settled now \<Rightarrow>
          if streamMode then
            WriteHead 200 sse_headers
            # map (\<lambda>(data, t). Write (sse_frame env (delta_chunk model data t))) events
            @ (case settled of
                 Resolved result \<Rightarrow>
                   [Write (sse_frame env (terminal_chunk model now)),
                    Write ''data: [DONE]\<newline>\<newline>'',
                    End None]
               | Rejected msg \<Rightarrow>
                   [Write (sse_frame env (JObj [(''error'', JStr msg)])), End None])
          else
            (case settled of
               Resolved result \<Rightarrow>
                 [WriteHead 200 json_headers,
                  End (Some (JSON_stringify env (completion_response model result now)))]
             | Rejected msg \<Rightarrow> respond_error env 500 msg))"

text \<open>\<open>const model = requestData.model || "OpenAI_GPT4o-mini"\<close>.\<close>

definition model_of :: "json \<Rightarrow> json option" where
  "model_of requestData =
     (let m = get requestData ''model''
      in if truthy m then m else Some (JStr ''OpenAI_GPT4o-mini''))"

text \<open>
  The listener of the request's \<open>end\<close> event, for a request routed to
  \<open>ChatCompletions\<close>. Its argument is the outcome of \<open>JSON.parse(body)\<close>: \<open>Inl msg\<close>
  when it throws a SyntaxError with that message, \<open>Inr requestData\<close> otherwise.
  Reading \<open>requestData.model\<close> of \<open>null\<close> throws, and so does
  \<open>modelId.toLowerCase()\<close> in the formatter when the model is not a string; every
  throw reaches the \<open>catch\<close>, which answers 500 with the error's message.
\<close>

definition chat_completions :: "env \<Rightarrow> string + json \<Rightarrow> effect list option" where
  "chat_completions env parsed =
     (case parsed of
        Inl msg \<Rightarrow> Some (respond_error env 500 msg)
      | Inr requestData \<Rightarrow>
          if requestData = JNull
          then Some (respond_error env 500 (TypeError_message env (PropertyOfNull ''model'')))
          else
            let model = model_of requestData;
                messages = get requestData ''messages''
            in if \<not> truthy messages \<or> \<not> isArray messages
               then Some (respond_error env 400 ''Missing or invalid 'messages' in request body'')
               else
                 (case model of
                    Some (JStr modelId) \<Rightarrow>
                      (case as_messages (elements messages) of
                         None \<Rightarrow> None
                       | Some msgs \<Rightarrow>
                           let prompt = formatPromptForModel msgs modelId
                           in Some (Format msgs modelId #
                                (if prompt = []
                                 then respond_error env 400 ''Missing 'content' in the last message''
                                 else
                                   let streamMode = (get requestData ''stream'' = Some (JBool True));
                                       answer = AI_ask env prompt (AI_Model env modelId)
                                   in Ask prompt (AI_Model env modelId)
                                      # respond_answer env modelId streamMode answer)))
                  | _ \<Rightarrow>
                      Some (respond_error env 500
                              (TypeError_message env (NotAFunction ''modelId.toLowerCase'')))))"

text \<open>Readings of a trace.\<close>

definition writes :: "effect list \<Rightarrow> string list" where
  "writes tr = concat (map (\<lambda>e. case e of Write s \<Rightarrow> [s] | _ \<Rightarrow> []) tr)"

definition calls_inference :: "effect list \<Rightarrow> bool" where
  "calls_inference tr = list_ex (\<lambda>e. case e of Ask p m \<Rightarrow> True | _ \<Rightarrow> False) tr"

text \<open>
  An environment for the examples. \<open>show_json\<close> stands in for \<open>JSON.stringify\<close>: it
  prints the structure without quoting or escaping strings, and \<open>#\<close> for a number.
  The TypeError texts are V8's, \<open>AI.Model\<close> has two entries, and the inference
  capability streams \<open>Hel\<close>, \<open>lo\<close> and resolves with \<open>Hello\<close>.
\<close>

fun show_json :: "json \<Rightarrow> string" where
  "show_json JNull = ''null''"
| "show_json (JBool b) = (if b then ''true'' else ''false'')"
| "show_json (JNum n) = ''#''"
| "show_json (JStr s) = s"
| "show_json (JArr xs) = ''['' @ join (map show_json xs) '','' @ '']''"
| "show_json (JObj kvs) =
     ''{'' @ join (map (\<lambda>kv. fst kv @ '':'' @ show_json (snd kv)) kvs) '','' @ ''}''"

definition example_env :: env where
  "example_env =
     \<lparr>JSON_stringify = show_json,
      TypeError_message =
        (\<lambda>e. case e of
               PropertyOfNull k \<Rightarrow> ''Cannot read properties of null (reading '' @ k @ '')''
             | NotAFunction f \<Rightarrow> f @ '' is not a function''),
      AI_Model = map_of [(''OpenAI_GPT4o-mini'', ''openai-gpt-4o-mini''),
                         (''Llama3.1_8B'', ''groq-llama-3.1-8b-instant'')],
      AI_ask = (\<lambda>prompt model.
                  Answer [(''Hel'', 1700000000123), (''lo'', 1700000000456)]
                         (Resolved ''Hello'') 1700000000789)\<rparr>"

section \<open>Notions the properties are stated with\<close>

text \<open>The role a Llama3 header is tagged with, and the block of one message.\<close>

definition llama3_role :: "string \<Rightarrow> string" where
  "llama3_role r = (if r = ''system'' \<or> r = ''assistant'' then r else ''user'')"

definition llama3_block :: "message \<Rightarrow> string" where
  "llama3_block msg =
     ''<|start_header_id|>'' @ llama3_role (role msg) @ ''<|end_header_id|>\<newline>\<newline>''
       @ content msg @ ''<|eot_id|>''"

text \<open>What one message contributes to a Mistral and to a Llama2 prompt.\<close>

definition mistral_turn :: "message \<Rightarrow> string" where
  "mistral_turn msg =
     (if role msg = ''user'' then ''[INST] '' @ content msg @ '' [/INST]''
      else if role msg = ''assistant'' then content msg @ ''</s>''
      else [])"

definition llama2_turn :: "message \<Rightarrow> string" where
  "llama2_turn msg =
     (if role msg = ''user'' then ''[INST] '' @ content msg @ '' [/INST]''
      else if role msg = ''assistant'' then '' '' @ content msg @ '' </s><s>''
      else [])"

definition trim_dangling :: "string \<Rightarrow> string" where
  "trim_dangling prompt = (if endsWith prompt ''<s>'' then slice prompt 0 (- 3) else prompt)"

text \<open>The Llama2 prompt behind the content of a leading system message.\<close>

definition llama2_after_system :: "message list \<Rightarrow> string" where
  "llama2_after_system rest =
     trim_dangling (''\<newline><</SYS>>\<newline>\<newline>'' @ concat (map llama2_turn rest))"

text \<open>
  The family classification as the specification words it: a case-insensitive
  substring match of the identifier against an ordered table of patterns, the first
  matching rule winning, \<open>Default\<close> when none matches.
\<close>

fun contains_ci :: "string \<Rightarrow> string \<Rightarrow> bool" where
  "contains_ci [] p = (p = [])"
| "contains_ci (c # cs) p =
     (toLowerCase (take (length p) (c # cs)) = toLowerCase p \<or> contains_ci cs p)"

datatype family = Llama3 | Llama2 | Mistral | Claude | Grok | SimpleChat | Default

definition family_rules :: "(string list \<times> family) list" where
  "family_rules =
     [([''llama3.1'', ''llama-4''], Llama3),
      ([''llama3'', ''llama-3.3''], Llama3),
      ([''llama2'', ''codellama''], Llama2),
      ([''mistral'', ''nemo'', ''codestral''], Mistral),
      ([''anthropic'', ''claude''], Claude),
      ([''grok''], Grok),
      ([''deepseek''], Llama2),
      ([''openai'', ''google'', ''gemini''], SimpleChat)]"

definition classify :: "string \<Rightarrow> family" where
  "classify modelId =
     (case find (\<lambda>(patterns, f). list_ex (contains_ci modelId) patterns) family_rules of
        Some (patterns, f) \<Rightarrow> f
      | None \<Rightarrow> Default)"

text \<open>The matched substring: the first pattern, in the order of the table, that occurs.\<close>

definition matched_pattern :: "string \<Rightarrow> string option" where
  "matched_pattern modelId = find (contains_ci modelId) (concat (map fst family_rules))"

definition family_of :: "string option \<Rightarrow> family" where
  "family_of p =
     (case p of
        None \<Rightarrow> Default
      | Some q \<Rightarrow> (case find (\<lambda>(patterns, f). q \<in> set patterns) family_rules of
                    Some (patterns, f) \<Rightarrow> f
                  | None \<Rightarrow> Default))"

definition format_family :: "family \<Rightarrow> string \<Rightarrow> message list \<Rightarrow> string" where
  "format_family f modelId messages =
     (case f of
        Llama3 \<Rightarrow> formatLlama3 messages
      | Llama2 \<Rightarrow> formatLlama2 messages
      | Mistral \<Rightarrow> formatMistral messages
      | Claude \<Rightarrow> formatClaude messages
      | Grok \<Rightarrow> formatGrok messages
      | SimpleChat \<Rightarrow> formatSimpleChat messages (contains_ci modelId ''openai'')
      | Default \<Rightarrow> formatDefault messages)"

text \<open>An envelope with the constant id and object tag.\<close>

definition constant_tags :: "json \<Rightarrow> bool" where
  "constant_tags obj =
     (get obj ''id'' = Some (JStr ''chatcmpl-xyz'')
      \<and> get obj ''object'' = Some (JStr ''chat.completion''))"

section \<open>Properties of the formatters\<close>

subsection \<open>Strings\<close>

lemma endsWith_suffix: "endsWith s p \<longleftrightarrow> suffix p s"
proof
  assume "endsWith s p"
  then have "s = take (length s - length p) s @ p"
    by (simp add: endsWith_def) (metis append_take_drop_id)
  then show "suffix p s" by (metis suffixI)
next
  assume "suffix p s"
  then obtain zs where "s = zs @ p" by (auto simp: suffix_def)
  then show "endsWith s p" by (simp add: endsWith_def)
qed

lemma slice_trim: "slice s 0 (- 3) = take (length s - 3) s"
proof -
  have "nat (int (length s) - 3) = length s - 3" by linarith
  then show ?thesis by (simp add: slice_def Let_def max_def)
qed

lemma js_includes_iff: "js_includes s p \<longleftrightarrow> (\<exists>a b. s = a @ p @ b)"
proof (induction s)
  case Nil
  then show ?case by auto
next
  case (Cons c cs)
  show ?case
  proof
    assume "js_includes (c # cs) p"
    then consider "prefix p (c # cs)" | "js_includes cs p" by auto
    then show "\<exists>a b. c # cs = a @ p @ b"
    proof cases
      case 1
      then obtain b where "c # cs = p @ b" by (auto simp: prefix_def)
      then have "c # cs = [] @ p @ b" by simp
      then show ?thesis by blast
    next
      case 2
      then obtain a b where "cs = a @ p @ b" using Cons.IH by blast
      then have "c # cs = (c # a) @ p @ b" by simp
      then show ?thesis by blast
    qed
  next
    assume "\<exists>a b. c # cs = a @ p @ b"
    then obtain a b where ab: "c # cs = a @ p @ b" by blast
    show "js_includes (c # cs) p"
    proof (cases a)
      case Nil
      with ab have "prefix p (c # cs)" by (simp add: prefix_def)
      then show ?thesis by simp
    next
      case (Cons x a')
      with ab have "cs = a' @ p @ b" by simp
      then show ?thesis using Cons.IH by auto
    qed
  qed
qed

lemma contains_ci_iff:
  "contains_ci s p \<longleftrightarrow> (\<exists>a u b. s = a @ u @ b \<and> toLowerCase u = toLowerCase p)"
proof (induction s)
  case Nil
  then show ?case by (auto simp: toLowerCase_def)
next
  case (Cons c cs)
  show ?case
  proof
    assume "contains_ci (c # cs) p"
    then consider "toLowerCase (take (length p) (c # cs)) = toLowerCase p" | "contains_ci cs p"
      by auto
    then show "\<exists>a u b. c # cs = a @ u @ b \<and> toLowerCase u = toLowerCase p"
    proof cases
      case 1
      have "c # cs = [] @ take (length p) (c # cs) @ drop (length p) (c # cs)" by simp
      with 1 show ?thesis by blast
    next
      case 2
      then obtain a u b where "cs = a @ u @ b" "toLowerCase u = toLowerCase p"
        using Cons.IH by blast
      then have "c # cs = (c # a) @ u @ b" by simp
      then show ?thesis using \<open>toLowerCase u = toLowerCase p\<close> by blast
    qed
  next
    assume "\<exists>a u b. c # cs = a @ u @ b \<and> toLowerCase u = toLowerCase p"
    then obtain a u b where ab: "c # cs = a @ u @ b" and u: "toLowerCase u = toLowerCase p"
      by blast
    show "contains_ci (c # cs) p"
    proof (cases a)
      case Nil
      from u have "length u = length p" by (metis length_map toLowerCase_def)
      with ab Nil have "take (length p) (c # cs) = u" by simp
      with u show ?thesis by simp
    next
      case (Cons x a')
      with ab have "cs = a' @ u @ b" by simp
      then show ?thesis using Cons.IH u by auto
    qed
  qed
qed

lemma js_includes_map:
  "js_includes (map f s) p \<longleftrightarrow> (\<exists>a u b. s = a @ u @ b \<and> map f u = p)"
proof
  assume "js_includes (map f s) p"
  then obtain a b where "map f s = a @ p @ b" by (auto simp: js_includes_iff)
  then obtain us vs where 1: "s = us @ vs" "map f vs = p @ b"
    by (metis map_eq_append_conv)
  then obtain u w where 2: "vs = u @ w" "map f u = p"
    by (metis map_eq_append_conv)
  with 1 show "\<exists>a u b. s = a @ u @ b \<and> map f u = p" by blast
next
  assume "\<exists>a u b. s = a @ u @ b \<and> map f u = p"
  then obtain a u b where "s = a @ u @ b" "map f u = p" by blast
  then have "map f s = map f a @ p @ map f b" by simp
  then show "js_includes (map f s) p" unfolding js_includes_iff by blast
qed

lemma contains_ci_js: "contains_ci s p = js_includes (toLowerCase s) (toLowerCase p)"
  by (simp add: contains_ci_iff js_includes_map toLowerCase_def)

subsection \<open>Llama3 and Mistral\<close>

lemma fold_llama3:
  "fold (\<lambda>msg prompt.
           let r = (if role msg = ''assistant'' then ''assistant''
                    else (if role msg = ''system'' then ''system'' else ''user''))
           in prompt @ ''<|start_header_id|>'' @ r @ ''<|end_header_id|>\<newline>\<newline>''
                @ content msg @ ''<|eot_id|>'') ms acc
   = acc @ concat (map llama3_block ms)"
  by (induction ms arbitrary: acc) (simp_all add: llama3_block_def llama3_role_def)

text \<open>
  C6: the Llama3 prompt is the begin-of-text marker, then for each message in order a
  header block tagged with the role collapsed into system, user or assistant (any role
  other than system or assistant is \<open>user\<close>) that wraps the content and ends with the
  end-of-turn marker, then an open assistant header.
\<close>

theorem formatLlama3_shape:
  "formatLlama3 messages =
     ''<|begin_of_text|>'' @ concat (map llama3_block messages)
       @ ''<|start_header_id|>assistant<|end_header_id|>\<newline>\<newline>''"
  unfolding formatLlama3_def fold_llama3 by (simp add: Let_def)

lemma fold_mistral:
  "fold (\<lambda>msg prompt.
           if role msg = ''user'' then prompt @ ''[INST] '' @ content msg @ '' [/INST]''
           else if role msg = ''assistant'' then prompt @ content msg @ ''</s>''
           else prompt) ms acc
   = acc @ concat (map mistral_turn ms)"
  by (induction ms arbitrary: acc) (simp_all add: mistral_turn_def)

lemma formatMistral_concat: "formatMistral messages = ''<s>'' @ concat (map mistral_turn messages)"
  unfolding formatMistral_def fold_mistral by (simp add: Let_def)

text \<open>
  C7: the Mistral prompt is the sequence-start marker followed by what each message
  contributes: a user message its content in instruction brackets, an assistant message
  its raw content and a sequence-end marker, a system message nothing at all (the prompt
  is the same without it); a sequence of system messages only gives exactly the
  sequence-start marker.
\<close>

theorem formatMistral_shape:
  "formatMistral messages = ''<s>'' @ concat (map mistral_turn messages)
   \<and> (role m = ''system'' \<longrightarrow> mistral_turn m = '''' \<and> formatMistral (xs @ m # ys) = formatMistral (xs @ ys))
   \<and> ((\<forall>x \<in> set messages. role x = ''system'') \<longrightarrow> formatMistral messages = ''<s>'')"
proof (intro conjI impI)
  show "formatMistral messages = ''<s>'' @ concat (map mistral_turn messages)"
    by (rule formatMistral_concat)
next
  assume "role m = ''system''"
  then show "mistral_turn m = ''''" by (simp add: mistral_turn_def)
  then show "formatMistral (xs @ m # ys) = formatMistral (xs @ ys)"
    by (simp add: formatMistral_concat)
next
  assume "\<forall>x \<in> set messages. role x = ''system''"
  then have "concat (map mistral_turn messages) = []"
    by (induction messages) (simp_all add: mistral_turn_def)
  then show "formatMistral messages = ''<s>''"
    by (simp add: formatMistral_concat)
qed

theorem formatMistral_shape_witness:
  "formatMistral [\<lparr>role = ''system'', content = ''Be brief.''\<rparr>, \<lparr>role = ''system'', content = ''Be kind.''\<rparr>] = ''<s>''
   \<and> formatMistral [\<lparr>role = ''user'', content = ''Hi''\<rparr>, \<lparr>role = ''system'', content = ''Be brief.''\<rparr>,
                     \<lparr>role = ''assistant'', content = ''Hello''\<rparr>]
     = formatMistral [\<lparr>role = ''user'', content = ''Hi''\<rparr>, \<lparr>role = ''assistant'', content = ''Hello''\<rparr>]
   \<and> formatMistral [\<lparr>role = ''user'', content = ''Hi''\<rparr>, \<lparr>role = ''assistant'', content = ''Hello''\<rparr>]
     = ''<s>[INST] Hi [/INST]Hello</s>''"
  using formatMistral_shape [of "[\<lparr>role = ''system'', content = ''Be brief.''\<rparr>, \<lparr>role = ''system'', content = ''Be kind.''\<rparr>]"]
        formatMistral_shape [of "[\<lparr>role = ''user'', content = ''Hi''\<rparr>, \<lparr>role = ''assistant'', content = ''Hello''\<rparr>]"
                                "\<lparr>role = ''system'', content = ''Be brief.''\<rparr>" "[\<lparr>role = ''user'', content = ''Hi''\<rparr>]"
                                "[\<lparr>role = ''assistant'', content = ''Hello''\<rparr>]"]
  by (simp add: mistral_turn_def)

subsection \<open>Llama2\<close>

lemma fold_llama2:
  "fold (\<lambda>msg prompt.
           if role msg = ''user'' then prompt @ ''[INST] '' @ content msg @ '' [/INST]''
           else if role msg = ''assistant'' then prompt @ '' '' @ content msg @ '' </s><s>''
           else prompt) ms acc
   = acc @ concat (map llama2_turn ms)"
  by (induction ms arbitrary: acc) (simp_all add: llama2_turn_def)

lemma formatLlama2_system:
  "role m = ''system'' \<Longrightarrow>
   formatLlama2 (m # rest) =
     trim_dangling (''<s>[INST] <<SYS>>\<newline>'' @ content m @ ''\<newline><</SYS>>\<newline>\<newline>''
                      @ concat (map llama2_turn rest))"
  unfolding formatLlama2_def fold_llama2 by (simp add: Let_def trim_dangling_def)

lemma formatLlama2_plain:
  "(case messages of [] \<Rightarrow> True | m # _ \<Rightarrow> role m \<noteq> ''system'') \<Longrightarrow>
   formatLlama2 messages = trim_dangling (''<s>'' @ concat (map llama2_turn messages))"
  unfolding formatLlama2_def fold_llama2
  by (cases messages) (simp_all add: Let_def trim_dangling_def)

lemma suffix_short: "suffix p (a @ b) \<Longrightarrow> length p \<le> length b \<Longrightarrow> suffix p b"
  by (auto simp: suffix_append)

lemma trim_dangling_append:
  assumes "3 \<le> length b"
  shows "trim_dangling (a @ b) = a @ trim_dangling b"
proof -
  have "suffix ''<s>'' (a @ b) \<longleftrightarrow> suffix ''<s>'' b"
    using assms suffix_short [of "''<s>''" a b] by (auto simp: suffix_appendI)
  then show ?thesis
    using assms by (simp add: trim_dangling_def endsWith_suffix slice_trim)
qed

lemma llama2_turns_end:
  "concat (map llama2_turn ms) = [] \<or> suffix ''[/INST]'' (concat (map llama2_turn ms))
   \<or> suffix '' </s><s>'' (concat (map llama2_turn ms))"
proof (induction ms rule: rev_induct)
  case Nil
  then show ?case by simp
next
  case (snoc x xs)
  consider "role x = ''user''" | "role x \<noteq> ''user''" "role x = ''assistant''"
    | "role x \<noteq> ''user''" "role x \<noteq> ''assistant''" by blast
  then show ?case
  proof cases
    case 1
    then have "suffix ''[/INST]'' (concat (map llama2_turn (xs @ [x])))"
      by (simp add: llama2_turn_def suffix_def)
    then show ?thesis by blast
  next
    case 2
    then have "suffix '' </s><s>'' (concat (map llama2_turn (xs @ [x])))"
      by (simp add: llama2_turn_def suffix_def)
    then show ?thesis by blast
  next
    case 3
    then have "concat (map llama2_turn (xs @ [x])) = concat (map llama2_turn xs)"
      by (simp add: llama2_turn_def)
    with snoc.IH show ?thesis by simp
  qed
qed

lemma no_dangling_start:
  assumes t: "t = [] \<or> suffix ''[/INST]'' t \<or> suffix '' </s><s>'' t"
    and i: "i = ''<s>'' \<or> suffix ''\<newline>\<newline>'' i"
  shows "\<not> endsWith (trim_dangling (i @ t)) ''<s>''"
proof -
  consider "t = []" "i = ''<s>''" | "t = []" "suffix ''\<newline>\<newline>'' i"
    | "suffix ''[/INST]'' t" | "suffix '' </s><s>'' t"
    using t i by blast
  then show ?thesis
  proof cases
    case 1
    then show ?thesis by (simp add: trim_dangling_def endsWith_def slice_def)
  next
    case 2
    then obtain x where "i @ t = x @ ''\<newline>\<newline>''" by (auto simp: suffix_def)
    then show ?thesis by (simp add: trim_dangling_def endsWith_def)
  next
    case 3
    then obtain x where "i @ t = x @ ''[/INST]''" by (auto simp: suffix_def)
    then show ?thesis by (simp add: trim_dangling_def endsWith_def)
  next
    case 4
    then obtain x where "i @ t = x @ '' </s><s>''" by (auto simp: suffix_def)
    then show ?thesis by (simp add: trim_dangling_def endsWith_def slice_trim)
  qed
qed

lemma formatLlama2_no_dangling: "\<not> endsWith (formatLlama2 messages) ''<s>''"
proof (cases "case messages of [] \<Rightarrow> True | m # _ \<Rightarrow> role m \<noteq> ''system''")
  case True
  then show ?thesis
    using no_dangling_start [OF llama2_turns_end, of "''<s>''" messages]
    by (simp add: formatLlama2_plain)
next
  case False
  then obtain m rest where m: "messages = m # rest" "role m = ''system''"
    by (cases messages) auto
  define blk where
    "blk = ''<s>[INST] <<SYS>>\<newline>'' @ content m @ ''\<newline><</SYS>>\<newline>\<newline>''"
  have "formatLlama2 messages = trim_dangling (blk @ concat (map llama2_turn rest))"
    using m formatLlama2_system [of m rest] by (simp add: blk_def)
  moreover have "suffix ''\<newline>\<newline>'' blk"
    by (simp add: blk_def suffix_def)
  then have "\<not> endsWith (trim_dangling (blk @ concat (map llama2_turn rest))) ''<s>''"
    by (intro no_dangling_start [OF llama2_turns_end]) blast
  ultimately show ?thesis by simp
qed

lemma llama2_turn_wrapped:
  "llama2_turn m = ''[INST] '' @ content m @ '' [/INST]'' \<longleftrightarrow> role m = ''user''"
proof (cases "role m = ''user''")
  case True
  then show ?thesis by (simp add: llama2_turn_def)
next
  case False
  have "length (llama2_turn m) \<noteq> length (''[INST] '' @ content m @ '' [/INST]'')"
    using False by (simp add: llama2_turn_def)
  then have "llama2_turn m \<noteq> ''[INST] '' @ content m @ '' [/INST]''" by metis
  with False show ?thesis by simp
qed

text \<open>
  C5: for a sequence with a leading system message the Llama2 prompt is the
  sequence-start marker, the system block with that message's content, and the turns
  of the remaining messages only, a final \<open><s>\<close> trimmed. The content stands there
  once: what follows it does not depend on it. The instruction brackets
  \<open>[INST] content [/INST]\<close> are the turn of a user message and of no other message,
  and the leading system message has no turn, so its content is not rendered inside
  them. For every sequence the prompt does not end with a dangling \<open><s>\<close>.
\<close>

theorem formatLlama2_system_once:
  "formatLlama2 (\<lparr>role = ''system'', content = c\<rparr> # rest)
     = ''<s>[INST] <<SYS>>\<newline>'' @ c @ llama2_after_system rest
   \<and> formatLlama2 (\<lparr>role = ''system'', content = c\<rparr> # rest)
     = trim_dangling (''<s>[INST] <<SYS>>\<newline>'' @ c @ ''\<newline><</SYS>>\<newline>\<newline>''
                        @ concat (map llama2_turn rest))
   \<and> (llama2_turn m = ''[INST] '' @ content m @ '' [/INST]'' \<longleftrightarrow> role m = ''user'')
   \<and> llama2_turn \<lparr>role = ''system'', content = c\<rparr> = []
   \<and> \<not> endsWith (formatLlama2 messages) ''<s>''"
proof (intro conjI)
  have "formatLlama2 (\<lparr>role = ''system'', content = c\<rparr> # rest) =
     trim_dangling ((''<s>[INST] <<SYS>>\<newline>'' @ c)
                      @ (''\<newline><</SYS>>\<newline>\<newline>'' @ concat (map llama2_turn rest)))"
    by (simp add: formatLlama2_system)
  also have "\<dots> = (''<s>[INST] <<SYS>>\<newline>'' @ c) @ llama2_after_system rest"
    unfolding llama2_after_system_def by (rule trim_dangling_append) simp
  finally show "formatLlama2 (\<lparr>role = ''system'', content = c\<rparr> # rest)
     = ''<s>[INST] <<SYS>>\<newline>'' @ c @ llama2_after_system rest" by simp
  show "formatLlama2 (\<lparr>role = ''system'', content = c\<rparr> # rest)
     = trim_dangling (''<s>[INST] <<SYS>>\<newline>'' @ c @ ''\<newline><</SYS>>\<newline>\<newline>''
                        @ concat (map llama2_turn rest))"
    by (simp add: formatLlama2_system)
  show "llama2_turn m = ''[INST] '' @ content m @ '' [/INST]'' \<longleftrightarrow> role m = ''user''"
    by (rule llama2_turn_wrapped)
  show "llama2_turn \<lparr>role = ''system'', content = c\<rparr> = []"
    by (simp add: llama2_turn_def)
  show "\<not> endsWith (formatLlama2 messages) ''<s>''" by (rule formatLlama2_no_dangling)
qed

text \<open>
  At a system message followed by a user message: the system content stands in the
  system block, the only instruction brackets hold the user's content.
\<close>

theorem formatLlama2_system_once_witness:
  "formatLlama2 [\<lparr>role = ''system'', content = ''Be brief.''\<rparr>, \<lparr>role = ''user'', content = ''Hi''\<rparr>]
     = ''<s>[INST] <<SYS>>\<newline>Be brief.\<newline><</SYS>>\<newline>\<newline>[INST] Hi [/INST]''
   \<and> \<not> js_includes
         ''<s>[INST] <<SYS>>\<newline>Be brief.\<newline><</SYS>>\<newline>\<newline>[INST] Hi [/INST]''
         ''[INST] Be brief. [/INST]''
   \<and> \<not> endsWith
         (formatLlama2 [\<lparr>role = ''system'', content = ''Be brief.''\<rparr>, \<lparr>role = ''user'', content = ''Hi''\<rparr>])
         ''<s>''"
proof -
  note t = formatLlama2_system_once [of "''Be brief.''" "[\<lparr>role = ''user'', content = ''Hi''\<rparr>]"
          "\<lparr>role = ''user'', content = ''Hi''\<rparr>"
          "[\<lparr>role = ''system'', content = ''Be brief.''\<rparr>, \<lparr>role = ''user'', content = ''Hi''\<rparr>]"]
  from t have "formatLlama2 [\<lparr>role = ''system'', content = ''Be brief.''\<rparr>, \<lparr>role = ''user'', content = ''Hi''\<rparr>]
     = trim_dangling (''<s>[INST] <<SYS>>\<newline>'' @ ''Be brief.'' @ ''\<newline><</SYS>>\<newline>\<newline>''
                        @ concat (map llama2_turn [\<lparr>role = ''user'', content = ''Hi''\<rparr>]))"
    by (elim conjE)
  then have e: "formatLlama2 [\<lparr>role = ''system'', content = ''Be brief.''\<rparr>, \<lparr>role = ''user'', content = ''Hi''\<rparr>]
     = ''<s>[INST] <<SYS>>\<newline>Be brief.\<newline><</SYS>>\<newline>\<newline>[INST] Hi [/INST]''"
    by (simp add: trim_dangling_def endsWith_def llama2_turn_def)
  have i: "\<not> js_includes
         ''<s>[INST] <<SYS>>\<newline>Be brief.\<newline><</SYS>>\<newline>\<newline>[INST] Hi [/INST]''
         ''[INST] Be brief. [/INST]''"
    by simp
  from t have n: "\<not> endsWith
         (formatLlama2 [\<lparr>role = ''system'', content = ''Be brief.''\<rparr>, \<lparr>role = ''user'', content = ''Hi''\<rparr>])
         ''<s>''"
    by (elim conjE)
  from e i n show ?thesis by (intro conjI)
qed

subsection \<open>Family classification\<close>

lemma patterns_lower:
  "toLowerCase ''llama3.1'' = ''llama3.1''" "toLowerCase ''llama-4'' = ''llama-4''"
  "toLowerCase ''llama3'' = ''llama3''" "toLowerCase ''llama-3.3'' = ''llama-3.3''"
  "toLowerCase ''llama2'' = ''llama2''" "toLowerCase ''codellama'' = ''codellama''"
  "toLowerCase ''mistral'' = ''mistral''" "toLowerCase ''nemo'' = ''nemo''"
  "toLowerCase ''codestral'' = ''codestral''" "toLowerCase ''anthropic'' = ''anthropic''"
  "toLowerCase ''claude'' = ''claude''" "toLowerCase ''grok'' = ''grok''"
  "toLowerCase ''deepseek'' = ''deepseek''" "toLowerCase ''openai'' = ''openai''"
  "toLowerCase ''google'' = ''google''" "toLowerCase ''gemini'' = ''gemini''"
  by code_simp+

lemma patterns_ci:
  "contains_ci s ''llama3.1'' = js_includes (toLowerCase s) ''llama3.1''"
  "contains_ci s ''llama-4'' = js_includes (toLowerCase s) ''llama-4''"
  "contains_ci s ''llama3'' = js_includes (toLowerCase s) ''llama3''"
  "contains_ci s ''llama-3.3'' = js_includes (toLowerCase s) ''llama-3.3''"
  "contains_ci s ''llama2'' = js_includes (toLowerCase s) ''llama2''"
  "contains_ci s ''codellama'' = js_includes (toLowerCase s) ''codellama''"
  "contains_ci s ''mistral'' = js_includes (toLowerCase s) ''mistral''"
  "contains_ci s ''nemo'' = js_includes (toLowerCase s) ''nemo''"
  "contains_ci s ''codestral'' = js_includes (toLowerCase s) ''codestral''"
  "contains_ci s ''anthropic'' = js_includes (toLowerCase s) ''anthropic''"
  "contains_ci s ''claude'' = js_includes (toLowerCase s) ''claude''"
  "contains_ci s ''grok'' = js_includes (toLowerCase s) ''grok''"
  "contains_ci s ''deepseek'' = js_includes (toLowerCase s) ''deepseek''"
  "contains_ci s ''openai'' = js_includes (toLowerCase s) ''openai''"
  "contains_ci s ''google'' = js_includes (toLowerCase s) ''google''"
  "contains_ci s ''gemini'' = js_includes (toLowerCase s) ''gemini''"
  by (simp_all only: contains_ci_js patterns_lower)

lemma formatPromptForModel_classify:
  "formatPromptForModel messages modelId = format_family (classify modelId) modelId messages"
  by (simp add: formatPromptForModel_def classify_def family_rules_def format_family_def
      patterns_ci Let_def)

lemma classify_lower:
  assumes "toLowerCase m = toLowerCase m'"
  shows "classify m = classify m'"
proof -
  have "contains_ci m = contains_ci m'"
    by (rule ext) (simp add: contains_ci_js assms)
  then show ?thesis by (simp add: classify_def)
qed

lemma classify_matched: "classify m = family_of (matched_pattern m)"
  by (simp add: classify_def matched_pattern_def family_rules_def family_of_def)

lemma openai_matched:
  "classify m = SimpleChat \<Longrightarrow> contains_ci m ''openai'' = (matched_pattern m = Some ''openai'')"
  by (simp add: classify_def matched_pattern_def family_rules_def split: if_splits)

lemma format_matched:
  assumes eq: "matched_pattern m = matched_pattern m'"
  shows "formatPromptForModel messages m = formatPromptForModel messages m'"
proof -
  have c: "classify m = classify m'" using eq by (simp add: classify_matched)
  show ?thesis
  proof (cases "classify m = SimpleChat")
    case True
    then have "contains_ci m ''openai'' = contains_ci m' ''openai''"
      using c eq by (simp add: openai_matched)
    then have "formatSimpleChat messages (contains_ci m ''openai'')
                 = formatSimpleChat messages (contains_ci m' ''openai'')"
      by (rule arg_cong)
    then show ?thesis
      using True c by (simp add: formatPromptForModel_classify format_family_def)
  next
    case False
    then show ?thesis
      using c by (cases "classify m'") (simp_all add: formatPromptForModel_classify format_family_def)
  qed
qed

text \<open>The classification and the matched pattern as cascades over the lowered identifier.\<close>

lemma classify_cascade:
  "classify modelId =
     (let l = toLowerCase modelId
      in if js_includes l ''llama3.1'' \<or> js_includes l ''llama-4'' then Llama3
         else if js_includes l ''llama3'' \<or> js_includes l ''llama-3.3'' then Llama3
         else if js_includes l ''llama2'' \<or> js_includes l ''codellama'' then Llama2
         else if js_includes l ''mistral'' \<or> js_includes l ''nemo'' \<or> js_includes l ''codestral''
           then Mistral
         else if js_includes l ''anthropic'' \<or> js_includes l ''claude'' then Claude
         else if js_includes l ''grok'' then Grok
         else if js_includes l ''deepseek'' then Llama2
         else if js_includes l ''openai'' \<or> js_includes l ''google'' \<or> js_includes l ''gemini''
           then SimpleChat
         else Default)"
  by (simp add: classify_def family_rules_def patterns_ci Let_def)

lemma matched_pattern_cascade:
  "matched_pattern modelId =
     find (js_includes (toLowerCase modelId))
       [''llama3.1'', ''llama-4'', ''llama3'', ''llama-3.3'', ''llama2'', ''codellama'',
        ''mistral'', ''nemo'', ''codestral'', ''anthropic'', ''claude'', ''grok'', ''deepseek'',
        ''openai'', ''google'', ''gemini'']"
  by (simp add: matched_pattern_def family_rules_def patterns_ci)

lemma examples_lower:
  "toLowerCase ''Meta-Llama3.1-70B'' = ''meta-llama3.1-70b''"
  "toLowerCase ''llama3.1-instruct'' = ''llama3.1-instruct''"
  "toLowerCase ''llama2'' = ''llama2''"
  "toLowerCase ''codellama-13b'' = ''codellama-13b''"
  "toLowerCase ''LLAMA2-chat'' = ''llama2-chat''"
  "toLowerCase ''llama2-CHAT'' = ''llama2-chat''"
  "toLowerCase ''my-codellama-13b'' = ''my-codellama-13b''"
  "toLowerCase ''codellama'' = ''codellama''"
  "toLowerCase ''Google-Gemini-2'' = ''google-gemini-2''"
  "toLowerCase ''OpenAI_GPT4o-mini'' = ''openai_gpt4o-mini''"
  "toLowerCase ''llama3'' = ''llama3''"
  "toLowerCase ''Llama3.1_8B'' = ''llama3.1_8b''"
  by code_simp+

text \<open>
  C4: the family is chosen by a case-insensitive substring match in the fixed order of
  the table, the first matching rule winning: the formatter the code runs is the one of
  \<open>classify\<close>. Two identifiers that differ only in letter case, or that have the same
  matched pattern whatever surrounds it, get the same family and the same prompt;
  \<open>Meta-Llama3.1-70B\<close> and \<open>llama3.1-instruct\<close> are both Llama3, \<open>llama2\<close> and
  \<open>codellama-13b\<close> both Llama2.
\<close>

theorem classification_first_match:
  "formatPromptForModel messages modelId = format_family (classify modelId) modelId messages
   \<and> (toLowerCase m = toLowerCase m' \<longrightarrow>
        classify m = classify m' \<and> formatPromptForModel messages m = formatPromptForModel messages m')
   \<and> (matched_pattern n = matched_pattern n' \<longrightarrow>
        classify n = classify n' \<and> formatPromptForModel messages n = formatPromptForModel messages n')
   \<and> classify ''Meta-Llama3.1-70B'' = Llama3 \<and> classify ''llama3.1-instruct'' = Llama3
   \<and> classify ''llama2'' = Llama2 \<and> classify ''codellama-13b'' = Llama2"
proof (intro conjI impI)
  show "formatPromptForModel messages modelId = format_family (classify modelId) modelId messages"
    by (rule formatPromptForModel_classify)
next
  assume "toLowerCase m = toLowerCase m'"
  then show "classify m = classify m'" by (rule classify_lower)
  from \<open>toLowerCase m = toLowerCase m'\<close>
  show "formatPromptForModel messages m = formatPromptForModel messages m'"
    by (simp add: formatPromptForModel_def)
next
  assume eq: "matched_pattern n = matched_pattern n'"
  then show "classify n = classify n'" by (simp add: classify_matched)
  from eq show "formatPromptForModel messages n = formatPromptForModel messages n'"
    by (rule format_matched)
next
  show "classify ''Meta-Llama3.1-70B'' = Llama3" by (simp add: classify_cascade examples_lower)
  show "classify ''llama3.1-instruct'' = Llama3" by (simp add: classify_cascade examples_lower)
  show "classify ''llama2'' = Llama2" by (simp add: classify_cascade examples_lower)
  show "classify ''codellama-13b'' = Llama2" by (simp add: classify_cascade examples_lower)
qed

theorem classification_first_match_witness:
  "toLowerCase ''LLAMA2-chat'' = toLowerCase ''llama2-CHAT''
   \<and> classify ''LLAMA2-chat'' = classify ''llama2-CHAT''
   \<and> matched_pattern ''my-codellama-13b'' = Some ''codellama''
   \<and> matched_pattern ''codellama'' = Some ''codellama''
   \<and> classify ''my-codellama-13b'' = classify ''codellama''
   \<and> formatPromptForModel [\<lparr>role = ''user'', content = ''Hi''\<rparr>] ''my-codellama-13b''
       = formatPromptForModel [\<lparr>role = ''user'', content = ''Hi''\<rparr>] ''codellama''"
proof -
  have 1: "toLowerCase ''LLAMA2-chat'' = toLowerCase ''llama2-CHAT''"
    by (simp add: examples_lower)
  have 2: "matched_pattern ''my-codellama-13b'' = Some ''codellama''"
    by (simp add: matched_pattern_cascade examples_lower)
  have 3: "matched_pattern ''codellama'' = Some ''codellama''"
    by (simp add: matched_pattern_cascade examples_lower)
  show ?thesis
    using classification_first_match [of "[\<lparr>role = ''user'', content = ''Hi''\<rparr>]" "''codellama''"
              "''LLAMA2-chat''" "''llama2-CHAT''" "''my-codellama-13b''" "''codellama''"] 1 2 3
    by simp
qed

text \<open>
  C8: for an identifier classified into the SimpleChat family the code calls
  \<open>formatSimpleChat\<close> with a system-support flag that is true exactly when the
  identifier contains \<open>openai\<close> case-insensitively. With the flag false a system
  message is the line \<open>(System Instruction: content)\<close> without a role prefix, every
  other message the line \<open>role: content\<close>, and the lines are joined by blank lines.
\<close>

theorem simplechat_flag_and_lines:
  "(classify modelId = SimpleChat \<longrightarrow>
      formatPromptForModel messages modelId
        = formatSimpleChat messages (contains_ci modelId ''openai''))
   \<and> formatSimpleChat messages False
       = join (map (\<lambda>msg. if role msg = ''system''
                          then ''(System Instruction: '' @ content msg @ '')''
                          else role msg @ '': '' @ content msg) messages)
              ''\<newline>\<newline>''"
  by (simp add: formatPromptForModel_classify format_family_def formatSimpleChat_def)

theorem simplechat_flag_and_lines_witness:
  "classify ''Google-Gemini-2'' = SimpleChat \<and> \<not> contains_ci ''Google-Gemini-2'' ''openai''
   \<and> classify ''OpenAI_GPT4o-mini'' = SimpleChat \<and> contains_ci ''OpenAI_GPT4o-mini'' ''openai''
   \<and> formatPromptForModel [\<lparr>role = ''system'', content = ''Be brief.''\<rparr>, \<lparr>role = ''user'', content = ''Hi''\<rparr>]
        ''Google-Gemini-2'' = ''(System Instruction: Be brief.)\<newline>\<newline>user: Hi''
   \<and> formatPromptForModel [\<lparr>role = ''system'', content = ''Be brief.''\<rparr>, \<lparr>role = ''user'', content = ''Hi''\<rparr>]
        ''OpenAI_GPT4o-mini'' = ''system: Be brief.\<newline>\<newline>user: Hi''"
proof -
  have 1: "classify ''Google-Gemini-2'' = SimpleChat"
    by (simp add: classify_cascade examples_lower)
  have 2: "\<not> contains_ci ''Google-Gemini-2'' ''openai''"
    by (simp add: patterns_ci examples_lower)
  have 3: "classify ''OpenAI_GPT4o-mini'' = SimpleChat"
    by (simp add: classify_cascade examples_lower)
  have 4: "contains_ci ''OpenAI_GPT4o-mini'' ''openai''"
    by (simp add: patterns_ci examples_lower)
  show ?thesis
    using simplechat_flag_and_lines [of "''Google-Gemini-2''"
            "[\<lparr>role = ''system'', content = ''Be brief.''\<rparr>, \<lparr>role = ''user'', content = ''Hi''\<rparr>]"]
          simplechat_flag_and_lines [of "''OpenAI_GPT4o-mini''"
            "[\<lparr>role = ''system'', content = ''Be brief.''\<rparr>, \<lparr>role = ''user'', content = ''Hi''\<rparr>]"]
          1 2 3 4
    by (simp add: formatSimpleChat_def)
qed

section \<open>Properties of the request handler\<close>

lemma example_env_fields:
  "JSON_stringify example_env = show_json"
  "AI_Model example_env ''OpenAI_GPT4o-mini'' = Some ''openai-gpt-4o-mini''"
  "AI_Model example_env ''llama3'' = None"
  "AI_ask example_env p m
     = Answer [(''Hel'', 1700000000123), (''lo'', 1700000000456)] (Resolved ''Hello'') 1700000000789"
  by (simp_all add: example_env_def)

lemma route_chat_completions: "route ''POST'' ''/v1/chat/completions'' = ChatCompletions"
  by (simp add: route_def)

lemma not_array_400:
  assumes "requestData \<noteq> JNull"
    and "\<not> truthy (get requestData ''messages'') \<or> \<not> isArray (get requestData ''messages'')"
  shows "chat_completions env (Inr requestData)
           = Some (respond_error env 400 ''Missing or invalid 'messages' in request body'')"
  using assms by (simp add: chat_completions_def Let_def)

lemma formatted_request:
  assumes "requestData \<noteq> JNull"
    and "isArray (get requestData ''messages'')"
    and "model_of requestData = Some (JStr modelId)"
    and "as_messages (elements (get requestData ''messages'')) = Some msgs"
  shows "chat_completions env (Inr requestData)
           = Some (Format msgs modelId #
               (if formatPromptForModel msgs modelId = []
                then respond_error env 400 ''Missing 'content' in the last message''
                else Ask (formatPromptForModel msgs modelId) (AI_Model env modelId)
                     # respond_answer env modelId (get requestData ''stream'' = Some (JBool True))
                         (AI_ask env (formatPromptForModel msgs modelId) (AI_Model env modelId))))"
proof -
  from assms(2) obtain xs where "get requestData ''messages'' = Some (JArr xs)"
    by (cases "get requestData ''messages''" rule: isArray.cases) auto
  then show ?thesis
    using assms by (simp add: chat_completions_def Let_def)
qed

lemma default_model_lower: "toLowerCase ''OpenAI_GPT4o-mini'' = ''openai_gpt4o-mini''"
  by code_simp

lemma format_empty_default: "formatPromptForModel [] ''OpenAI_GPT4o-mini'' = []"
  by (simp add: formatPromptForModel_def default_model_lower formatSimpleChat_def)

text \<open>
  C1, as amended: a request whose body parses to a value other than \<open>null\<close> and whose
  \<open>messages\<close> is absent, falsy or not an array, and a request for whose messages the
  formatter returns the empty prompt, are answered with status 400 and a JSON error
  body, and no inference call is made. A request whose body is not parseable JSON, or
  parses to \<open>null\<close>, is answered with status 500 and a JSON error body that carries the
  exception's message, and no inference call is made either.
\<close>

theorem failures_before_inference:
  "(requestData \<noteq> JNull
      \<and> (\<not> truthy (get requestData ''messages'') \<or> \<not> isArray (get requestData ''messages''))
    \<longrightarrow> chat_completions env (Inr requestData)
          = Some [WriteHead 400 json_headers,
                  End (Some (JSON_stringify env
                    (JObj [(''error'', JStr ''Missing or invalid 'messages' in request body'')])))])
   \<and> (requestData \<noteq> JNull \<and> isArray (get requestData ''messages'')
      \<and> model_of requestData = Some (JStr modelId)
      \<and> as_messages (elements (get requestData ''messages'')) = Some msgs
      \<and> formatPromptForModel msgs modelId = []
    \<longrightarrow> chat_completions env (Inr requestData)
          = Some [Format msgs modelId, WriteHead 400 json_headers,
                  End (Some (JSON_stringify env
                    (JObj [(''error'', JStr ''Missing 'content' in the last message'')])))])
   \<and> chat_completions env (Inl msg)
       = Some [WriteHead 500 json_headers, End (Some (JSON_stringify env (JObj [(''error'', JStr msg)])))]
   \<and> chat_completions env (Inr JNull)
       = Some [WriteHead 500 json_headers,
               End (Some (JSON_stringify env
                 (JObj [(''error'', JStr (TypeError_message env (PropertyOfNull ''model'')))])))]
   \<and> \<not> calls_inference [WriteHead st json_headers, End body]
   \<and> \<not> calls_inference [Format msgs modelId, WriteHead st json_headers, End body]"
proof (intro conjI impI)
  assume "requestData \<noteq> JNull
      \<and> (\<not> truthy (get requestData ''messages'') \<or> \<not> isArray (get requestData ''messages''))"
  then show "chat_completions env (Inr requestData)
          = Some [WriteHead 400 json_headers,
                  End (Some (JSON_stringify env
                    (JObj [(''error'', JStr ''Missing or invalid 'messages' in request body'')])))]"
    using not_array_400 [of requestData env] by (simp add: respond_error_def)
next
  assume "requestData \<noteq> JNull \<and> isArray (get requestData ''messages'')
      \<and> model_of requestData = Some (JStr modelId)
      \<and> as_messages (elements (get requestData ''messages'')) = Some msgs
      \<and> formatPromptForModel msgs modelId = []"
  then show "chat_completions env (Inr requestData)
          = Some [Format msgs modelId, WriteHead 400 json_headers,
                  End (Some (JSON_stringify env
                    (JObj [(''error'', JStr ''Missing 'content' in the last message'')])))]"
    using formatted_request [of requestData modelId msgs env] by (simp add: respond_error_def)
next
  show "chat_completions env (Inl msg)
       = Some [WriteHead 500 json_headers, End (Some (JSON_stringify env (JObj [(''error'', JStr msg)])))]"
    by (simp add: chat_completions_def respond_error_def)
  show "chat_completions env (Inr JNull)
       = Some [WriteHead 500 json_headers,
               End (Some (JSON_stringify env
                 (JObj [(''error'', JStr (TypeError_message env (PropertyOfNull ''model'')))])))]"
    by (simp add: chat_completions_def respond_error_def)
  show "\<not> calls_inference [WriteHead st json_headers, End body]"
    by (simp add: calls_inference_def)
  show "\<not> calls_inference [Format msgs modelId, WriteHead st json_headers, End body]"
    by (simp add: calls_inference_def)
qed

theorem failures_before_inference_witness:
  "chat_completions example_env (Inr (JObj [(''model'', JStr ''gpt'')]))
     = Some [WriteHead 400 [(''Content-Type'', ''application/json'')],
             End (Some ''{error:Missing or invalid 'messages' in request body}'')]
   \<and> chat_completions example_env (Inr (JObj [(''messages'', JArr [])]))
     = Some [Format [] ''OpenAI_GPT4o-mini'', WriteHead 400 [(''Content-Type'', ''application/json'')],
             End (Some ''{error:Missing 'content' in the last message}'')]"
proof -
  let ?r1 = "JObj [(''model'', JStr ''gpt'')]"
  let ?r2 = "JObj [(''messages'', JArr [])]"
  have 1: "?r1 \<noteq> JNull \<and> (\<not> truthy (get ?r1 ''messages'') \<or> \<not> isArray (get ?r1 ''messages''))"
    by simp
  have 2: "?r2 \<noteq> JNull \<and> isArray (get ?r2 ''messages'')
      \<and> model_of ?r2 = Some (JStr ''OpenAI_GPT4o-mini'')
      \<and> as_messages (elements (get ?r2 ''messages'')) = Some []
      \<and> formatPromptForModel [] ''OpenAI_GPT4o-mini'' = []"
    by (simp add: model_of_def as_messages_def format_empty_default)
  show ?thesis
    using failures_before_inference [of ?r1 example_env]
          failures_before_inference [of ?r2 example_env "''OpenAI_GPT4o-mini''" "[]"] 1 2
    by (simp add: example_env_fields json_headers_def)
qed

text \<open>
  C1, as stated, fails: a body that is not parseable JSON is answered with status 500,
  not 400.
\<close>

theorem malformed_body_500:
  "chat_completions example_env (Inl ''Unexpected end of JSON input'')
     = Some [WriteHead 500 [(''Content-Type'', ''application/json'')],
             End (Some ''{error:Unexpected end of JSON input}'')]"
  by (simp add: chat_completions_def respond_error_def example_env_fields json_headers_def)

lemma format_empty_iff:
  "formatPromptForModel [] modelId = [] \<longleftrightarrow> classify modelId \<in> {Llama2, SimpleChat, Default}"
  by (cases "classify modelId")
     (simp_all add: formatPromptForModel_classify format_family_def formatLlama3_def
        formatLlama2_def formatMistral_def formatClaude_def formatGrok_def formatSimpleChat_def
        formatDefault_def endsWith_def slice_def)

lemma format_empty_llama3:
  "formatPromptForModel [] ''llama3''
     = ''<|begin_of_text|><|start_header_id|>assistant<|end_header_id|>\<newline>\<newline>''"
  by (simp add: formatPromptForModel_def examples_lower formatLlama3_def)

text \<open>
  C2, as amended: a request whose \<open>messages\<close> is the empty array passes validation. With
  a model that is a string (or absent, hence the default) the formatter is applied to
  the empty sequence; the request is rejected with status 400, without an inference
  call, when the formatter returns the empty prompt, which for the empty sequence is
  the case exactly for the Llama2, SimpleChat and Default families, and otherwise the
  inference capability is called with the prompt.
\<close>

theorem empty_messages_reach_formatter:
  "(requestData \<noteq> JNull \<and> get requestData ''messages'' = Some (JArr [])
      \<and> model_of requestData = Some (JStr modelId)
    \<longrightarrow> chat_completions env (Inr requestData)
          = Some (Format [] modelId #
              (if formatPromptForModel [] modelId = []
               then [WriteHead 400 json_headers,
                     End (Some (JSON_stringify env
                       (JObj [(''error'', JStr ''Missing 'content' in the last message'')])))]
               else Ask (formatPromptForModel [] modelId) (AI_Model env modelId)
                    # respond_answer env modelId (get requestData ''stream'' = Some (JBool True))
                        (AI_ask env (formatPromptForModel [] modelId) (AI_Model env modelId)))))
   \<and> (formatPromptForModel [] modelId = [] \<longleftrightarrow> classify modelId \<in> {Llama2, SimpleChat, Default})"
proof (intro conjI impI)
  assume a: "requestData \<noteq> JNull \<and> get requestData ''messages'' = Some (JArr [])
      \<and> model_of requestData = Some (JStr modelId)"
  then have "as_messages (elements (get requestData ''messages'')) = Some []"
    by (simp add: as_messages_def)
  then show "chat_completions env (Inr requestData)
          = Some (Format [] modelId #
              (if formatPromptForModel [] modelId = []
               then [WriteHead 400 json_headers,
                     End (Some (JSON_stringify env
                       (JObj [(''error'', JStr ''Missing 'content' in the last message'')])))]
               else Ask (formatPromptForModel [] modelId) (AI_Model env modelId)
                    # respond_answer env modelId (get requestData ''stream'' = Some (JBool True))
                        (AI_ask env (formatPromptForModel [] modelId) (AI_Model env modelId))))"
    using a formatted_request [of requestData modelId "[]" env] by (simp add: respond_error_def)
next
  show "formatPromptForModel [] modelId = [] \<longleftrightarrow> classify modelId \<in> {Llama2, SimpleChat, Default}"
    by (rule format_empty_iff)
qed

theorem empty_messages_reach_formatter_witness:
  "chat_completions example_env (Inr (JObj [(''messages'', JArr [])]))
     = Some [Format [] ''OpenAI_GPT4o-mini'', WriteHead 400 [(''Content-Type'', ''application/json'')],
             End (Some ''{error:Missing 'content' in the last message}'')]
   \<and> classify ''OpenAI_GPT4o-mini'' = SimpleChat"
proof -
  let ?r = "JObj [(''messages'', JArr [])]"
  have 1: "?r \<noteq> JNull \<and> get ?r ''messages'' = Some (JArr [])
      \<and> model_of ?r = Some (JStr ''OpenAI_GPT4o-mini'')"
    by (simp add: model_of_def)
  have 2: "classify ''OpenAI_GPT4o-mini'' = SimpleChat"
    by (simp add: classify_cascade examples_lower)
  show ?thesis
    using empty_messages_reach_formatter [of ?r "''OpenAI_GPT4o-mini''" example_env] 1 2
    by (simp add: example_env_fields json_headers_def format_empty_default)
qed

text \<open>
  C2, as stated, fails: with the empty array as \<open>messages\<close> and the model \<open>llama3\<close> the
  formatter is applied to the empty sequence, and the inference capability is called
  with its result.
\<close>

theorem empty_messages_formatted:
  "chat_completions example_env (Inr (JObj [(''model'', JStr ''llama3''), (''messages'', JArr [])]))
     = Some [Format [] ''llama3'',
             Ask ''<|begin_of_text|><|start_header_id|>assistant<|end_header_id|>\<newline>\<newline>'' None,
             WriteHead 200 [(''Content-Type'', ''application/json'')],
             End (Some ''{id:chatcmpl-xyz,object:chat.completion,created:#,model:llama3,choices:[{index:#,message:{role:assistant,content:Hello},finish_reason:stop}],usage:{}}'')]"
  by (simp add: chat_completions_def model_of_def as_messages_def format_empty_llama3
        respond_answer_def example_env_fields json_headers_def completion_response_def)

lemma format_hi_default:
  "formatPromptForModel [\<lparr>role = ''user'', content = ''Hi''\<rparr>] ''OpenAI_GPT4o-mini'' = ''user: Hi''"
  by (simp add: formatPromptForModel_def default_model_lower formatSimpleChat_def)

lemma writes_stream:
  "writes (Format msgs modelId # Ask p m # WriteHead st hs
           # map (\<lambda>(data, t). Write (f data t)) events @ [Write a, Write b, End None])
     = map (\<lambda>(data, t). f data t) events @ [a, b]"
  by (induction events) (auto simp: writes_def)

text \<open>
  C3: for a streaming request (\<open>stream\<close> is \<open>true\<close>) whose inference resolves, the
  handler writes one frame per data event, then the terminal chunk, whose
  \<open>choices[0]\<close> is a delta with the empty string as content and whose finish reason is
  \<open>stop\<close>, then the frame \<open>data: [DONE]\<close> with its two line breaks, and then only
  ends the response.
\<close>

theorem stream_ends_with_done:
  "requestData \<noteq> JNull \<and> isArray (get requestData ''messages'')
     \<and> model_of requestData = Some (JStr modelId)
     \<and> as_messages (elements (get requestData ''messages'')) = Some msgs
     \<and> formatPromptForModel msgs modelId = prompt \<and> prompt \<noteq> []
     \<and> get requestData ''stream'' = Some (JBool True)
     \<and> AI_ask env prompt (AI_Model env modelId) = Answer events (Resolved result) now
   \<longrightarrow> chat_completions env (Inr requestData)
         = Some ([Format msgs modelId, Ask prompt (AI_Model env modelId), WriteHead 200 sse_headers]
                 @ map (\<lambda>(data, t). Write (sse_frame env (delta_chunk modelId data t))) events
                 @ [Write (sse_frame env (terminal_chunk modelId now)),
                    Write ''data: [DONE]\<newline>\<newline>'',
                    End None])
       \<and> map_option writes (chat_completions env (Inr requestData))
         = Some (map (\<lambda>(data, t). sse_frame env (delta_chunk modelId data t)) events
                 @ [sse_frame env (terminal_chunk modelId now), ''data: [DONE]\<newline>\<newline>''])
       \<and> get (terminal_chunk modelId now) ''choices''
         = Some (JArr [JObj [(''delta'', JObj [(''content'', JStr [])])]])
       \<and> get (terminal_chunk modelId now) ''finish_reason'' = Some (JStr ''stop'')"
proof (intro impI)
  assume a: "requestData \<noteq> JNull \<and> isArray (get requestData ''messages'')
     \<and> model_of requestData = Some (JStr modelId)
     \<and> as_messages (elements (get requestData ''messages'')) = Some msgs
     \<and> formatPromptForModel msgs modelId = prompt \<and> prompt \<noteq> []
     \<and> get requestData ''stream'' = Some (JBool True)
     \<and> AI_ask env prompt (AI_Model env modelId) = Answer events (Resolved result) now"
  then have tr: "chat_completions env (Inr requestData)
         = Some ([Format msgs modelId, Ask prompt (AI_Model env modelId), WriteHead 200 sse_headers]
                 @ map (\<lambda>(data, t). Write (sse_frame env (delta_chunk modelId data t))) events
                 @ [Write (sse_frame env (terminal_chunk modelId now)),
                    Write ''data: [DONE]\<newline>\<newline>'',
                    End None])"
    using formatted_request [of requestData modelId msgs env] by (simp add: respond_answer_def)
  have w: "map_option writes (chat_completions env (Inr requestData))
         = Some (map (\<lambda>(data, t). sse_frame env (delta_chunk modelId data t)) events
                 @ [sse_frame env (terminal_chunk modelId now), ''data: [DONE]\<newline>\<newline>''])"
    unfolding tr using writes_stream [of msgs modelId prompt "AI_Model env modelId" 200 sse_headers
        "\<lambda>data t. sse_frame env (delta_chunk modelId data t)" events] by simp
  have c: "get (terminal_chunk modelId now) ''choices''
         = Some (JArr [JObj [(''delta'', JObj [(''content'', JStr [])])]])"
    by (simp add: terminal_chunk_def)
  have f: "get (terminal_chunk modelId now) ''finish_reason'' = Some (JStr ''stop'')"
    by (simp add: terminal_chunk_def)
  from tr w c f show "chat_completions env (Inr requestData)
         = Some ([Format msgs modelId, Ask prompt (AI_Model env modelId), WriteHead 200 sse_headers]
                 @ map (\<lambda>(data, t). Write (sse_frame env (delta_chunk modelId data t))) events
                 @ [Write (sse_frame env (terminal_chunk modelId now)),
                    Write ''data: [DONE]\<newline>\<newline>'',
                    End None])
       \<and> map_option writes (chat_completions env (Inr requestData))
         = Some (map (\<lambda>(data, t). sse_frame env (delta_chunk modelId data t)) events
                 @ [sse_frame env (terminal_chunk modelId now), ''data: [DONE]\<newline>\<newline>''])
       \<and> get (terminal_chunk modelId now) ''choices''
         = Some (JArr [JObj [(''delta'', JObj [(''content'', JStr [])])]])
       \<and> get (terminal_chunk modelId now) ''finish_reason'' = Some (JStr ''stop'')"
    by blast
qed

theorem stream_ends_with_done_witness:
  "map_option writes
     (chat_completions example_env
        (Inr (JObj [(''stream'', JBool True),
                    (''messages'', JArr [JObj [(''role'', JStr ''user''), (''content'', JStr ''Hi'')]])])))
     = Some [''data: {id:chatcmpl-xyz,object:chat.completion,model:OpenAI_GPT4o-mini,created:#,choices:[{delta:{content:Hel}}]}\<newline>\<newline>'',
             ''data: {id:chatcmpl-xyz,object:chat.completion,model:OpenAI_GPT4o-mini,created:#,choices:[{delta:{content:lo}}]}\<newline>\<newline>'',
             ''data: {id:chatcmpl-xyz,object:chat.completion,created:#,model:OpenAI_GPT4o-mini,choices:[{delta:{content:}}],finish_reason:stop}\<newline>\<newline>'',
             ''data: [DONE]\<newline>\<newline>'']"
proof -
  let ?r = "JObj [(''stream'', JBool True),
                  (''messages'', JArr [JObj [(''role'', JStr ''user''), (''content'', JStr ''Hi'')]])]"
  have 1: "?r \<noteq> JNull \<and> isArray (get ?r ''messages'')
     \<and> model_of ?r = Some (JStr ''OpenAI_GPT4o-mini'')
     \<and> as_messages (elements (get ?r ''messages'')) = Some [\<lparr>role = ''user'', content = ''Hi''\<rparr>]
     \<and> formatPromptForModel [\<lparr>role = ''user'', content = ''Hi''\<rparr>] ''OpenAI_GPT4o-mini'' = ''user: Hi''
     \<and> ''user: Hi'' \<noteq> []
     \<and> get ?r ''stream'' = Some (JBool True)
     \<and> AI_ask example_env ''user: Hi'' (AI_Model example_env ''OpenAI_GPT4o-mini'')
         = Answer [(''Hel'', 1700000000123), (''lo'', 1700000000456)] (Resolved ''Hello'') 1700000000789"
    by (simp add: model_of_def as_messages_def format_hi_default example_env_fields)
  show ?thesis
    using stream_ends_with_done [of ?r "''OpenAI_GPT4o-mini''" "[\<lparr>role = ''user'', content = ''Hi''\<rparr>]"
            "''user: Hi''" example_env "[(''Hel'', 1700000000123), (''lo'', 1700000000456)]" "''Hello''"
            1700000000789] 1
    by (simp add: example_env_fields sse_frame_def delta_chunk_def terminal_chunk_def writes_def)
qed

text \<open>
  C9: in the terminal chunk of a stream \<open>finish_reason\<close> is a key of the envelope
  itself, beside \<open>choices\<close>, and \<open>choices[0]\<close> holds only a delta; in the non-streaming
  response the envelope has no \<open>finish_reason\<close> key, and \<open>choices[0]\<close> holds \<open>index\<close>,
  the assistant message and \<open>finish_reason\<close>.
\<close>

theorem finish_reason_positions:
  "keys (terminal_chunk model now)
     = [''id'', ''object'', ''created'', ''model'', ''choices'', ''finish_reason'']
   \<and> get (terminal_chunk model now) ''finish_reason'' = Some (JStr ''stop'')
   \<and> get (terminal_chunk model now) ''choices''
       = Some (JArr [JObj [(''delta'', JObj [(''content'', JStr [])])]])
   \<and> keys (completion_response model result now')
       = [''id'', ''object'', ''created'', ''model'', ''choices'', ''usage'']
   \<and> get (completion_response model result now') ''finish_reason'' = None
   \<and> get (completion_response model result now') ''choices''
       = Some (JArr [JObj [(''index'', JNum 0),
                           (''message'', JObj [(''role'', JStr ''assistant''), (''content'', JStr result)]),
                           (''finish_reason'', JStr ''stop'')]])
   \<and> respond_answer env model True (Answer events (Resolved result) now)
       = WriteHead 200 sse_headers
         # map (\<lambda>(data, t). Write (sse_frame env (delta_chunk model data t))) events
         @ [Write (sse_frame env (terminal_chunk model now)), Write ''data: [DONE]\<newline>\<newline>'', End None]
   \<and> respond_answer env model False (Answer events (Resolved result) now')
       = [WriteHead 200 json_headers,
          End (Some (JSON_stringify env (completion_response model result now')))]"
  by (simp add: terminal_chunk_def completion_response_def respond_answer_def)

lemma respond_answer_stream:
  "respond_answer env model True (Answer events (Resolved result) now)
     = WriteHead 200 sse_headers
       # map (\<lambda>obj. Write (sse_frame env obj))
           (map (\<lambda>(data, t). delta_chunk model data t) events @ [terminal_chunk model now])
       @ [Write ''data: [DONE]\<newline>\<newline>'', End None]"
  by (simp add: respond_answer_def comp_def case_prod_unfold)

text \<open>
  C10: the envelopes of a resolved stream (one delta chunk per data event, then the
  terminal chunk) and the non-streaming response all carry the id \<open>chatcmpl-xyz\<close> and
  the object tag \<open>chat.completion\<close>, whatever the request, the text and the time: the
  id of one envelope is the id of every other.
\<close>

theorem constant_id_and_object:
  "respond_answer env model True (Answer events (Resolved result) now)
     = WriteHead 200 sse_headers
       # map (\<lambda>obj. Write (sse_frame env obj))
           (map (\<lambda>(data, t). delta_chunk model data t) events @ [terminal_chunk model now])
       @ [Write ''data: [DONE]\<newline>\<newline>'', End None]
   \<and> list_all constant_tags
        (map (\<lambda>(data, t). delta_chunk model data t) events @ [terminal_chunk model now])
   \<and> respond_answer env model False (Answer events (Resolved result) now)
       = [WriteHead 200 json_headers,
          End (Some (JSON_stringify env (completion_response model result now)))]
   \<and> constant_tags (completion_response model result now)
   \<and> get (delta_chunk model data t) ''id'' = get (delta_chunk model' data' t') ''id''
   \<and> get (terminal_chunk model now) ''id'' = get (terminal_chunk model' now') ''id''
   \<and> get (completion_response model result now) ''id''
       = get (completion_response model' result' now') ''id''"
proof (intro conjI)
  show "respond_answer env model True (Answer events (Resolved result) now)
     = WriteHead 200 sse_headers
       # map (\<lambda>obj. Write (sse_frame env obj))
           (map (\<lambda>(data, t). delta_chunk model data t) events @ [terminal_chunk model now])
       @ [Write ''data: [DONE]\<newline>\<newline>'', End None]"
    by (rule respond_answer_stream)
  show "list_all constant_tags
        (map (\<lambda>(data, t). delta_chunk model data t) events @ [terminal_chunk model now])"
    by (induction events) (auto simp: constant_tags_def delta_chunk_def terminal_chunk_def)
  show "respond_answer env model False (Answer events (Resolved result) now)
       = [WriteHead 200 json_headers,
          End (Some (JSON_stringify env (completion_response model result now)))]"
    by (simp add: respond_answer_def)
  show "constant_tags (completion_response model result now)"
    by (simp add: constant_tags_def completion_response_def)
  show "get (delta_chunk model data t) ''id'' = get (delta_chunk model' data' t') ''id''"
    by (simp add: delta_chunk_def)
  show "get (terminal_chunk model now) ''id'' = get (terminal_chunk model' now') ''id''"
    by (simp add: terminal_chunk_def)
  show "get (completion_response model result now) ''id''
       = get (completion_response model' result' now') ''id''"
    by (simp add: completion_response_def)
qed

end
